theory Spec2Isabelle
  imports Main
begin

section \<open>Naive datetimes, times of day and timedeltas\<close>

text \<open>
  The availability engine of \<^verbatim>\<open>src/book/calculate_availability.py\<close> works on Python's
  naive \<^verbatim>\<open>datetime\<close>, \<^verbatim>\<open>time\<close> and \<^verbatim>\<open>timedelta\<close> values, all of microsecond
  resolution. A \<open>datetime\<close> is modelled as the number of microseconds since
  0001-01-01T00:00:00 (a Monday, the day of ordinal 1 in Python), a \<open>time\<close> as the number
  of microseconds since midnight, and a \<open>timedelta\<close> as a number of microseconds.
  Comparison and \<open>+\<close>/\<open>-\<close> are then those of the integers. Python confines a datetime to
  the years 1 to 9999; the instants here are unbounded integers, with the same
  arithmetic.
\<close>

type_synonym datetime = int
type_synonym time = int
type_synonym timedelta = int

definition DAY :: timedelta where
  "DAY = 86400000000"

definition timedelta_days :: "int \<Rightarrow> timedelta" where
  "timedelta_days n = n * DAY"

definition timedelta_weeks :: "int \<Rightarrow> timedelta" where
  "timedelta_weeks n = timedelta_days (7 * n)"

definition timedelta_seconds :: "int \<Rightarrow> timedelta" where
  "timedelta_seconds n = n * 1000000"

text \<open>\<^verbatim>\<open>time(h, m, s)\<close> and \<^verbatim>\<open>time(h, m, s, us)\<close>.\<close>

definition mk_time :: "int \<Rightarrow> int \<Rightarrow> int \<Rightarrow> int \<Rightarrow> time" where
  "mk_time h m s us = ((h * 60 + m) * 60 + s) * 1000000 + us"

text \<open>\<^verbatim>\<open>d.toordinal() - 1\<close>: the number of whole days since 0001-01-01.\<close>

definition day_number :: "datetime \<Rightarrow> int" where
  "day_number t = t div DAY"

text \<open>\<^verbatim>\<open>d.weekday()\<close>: Monday is 0 and Sunday is 6.\<close>

definition weekday :: "datetime \<Rightarrow> int" where
  "weekday t = day_number t mod 7"

text \<open>\<^verbatim>\<open>d.time()\<close>: the time of day of a datetime.\<close>

definition time_of :: "datetime \<Rightarrow> time" where
  "time_of t = t mod DAY"

text \<open>\<^verbatim>\<open>d.replace(hour=h, minute=m, second=s, microsecond=us)\<close>: same date, new time of day.\<close>

definition replace_time :: "datetime \<Rightarrow> int \<Rightarrow> int \<Rightarrow> int \<Rightarrow> int \<Rightarrow> datetime" where
  "replace_time t h m s us = day_number t * DAY + mk_time h m s us"

text \<open>
  \<^verbatim>\<open>d.strftime("%Y-%m-%d")\<close> names the calendar date of \<open>d\<close>. Two datetimes get the same
  string exactly when they lie on the same day, so the key of a date is its day number.
\<close>

definition date_str :: "datetime \<Rightarrow> int" where
  "date_str t = day_number t"

section \<open>Data\<close>

text \<open>
  A working-hour range of the weekly template is a dictionary with the keys
  \<^verbatim>\<open>"start"\<close> and \<^verbatim>\<open>"end"\<close>, two times of day in ISO format; a busy event has the same
  keys, holding datetimes. The records hold the values that \<^verbatim>\<open>time.fromisoformat\<close> and
  \<^verbatim>\<open>datetime.fromisoformat\<close> read from the strings, under the names the source gives
  them (\<^verbatim>\<open>time_range_start\<close>, \<^verbatim>\<open>event_start\<close>, ...).
\<close>

record time_range =
  time_range_start :: time
  time_range_end :: time

record event =
  event_start :: datetime
  event_end :: datetime

text \<open>The stored template: one list of ranges per weekday index.\<close>

type_synonym availability = "time_range list list"

text \<open>The slot written to the output: \<^verbatim>\<open>{"time": ..., "users": []}\<close>.\<close>

record slot =
  slot_time :: datetime
  users :: "string list"

text \<open>
  \<^verbatim>\<open>freeTimes\<close> is a \<^verbatim>\<open>defaultdict(list)\<close>; a Python dictionary keeps its keys in the
  order of their first insertion, so it is an association list from date keys to the
  slots of that date.
\<close>

type_synonym free_times = "(int \<times> slot list) list"

text \<open>
  The exceptions that reach the callers: Python's plain \<^verbatim>\<open>Exception\<close> with its message,
  \<^verbatim>\<open>IndexError\<close> and \<^verbatim>\<open>KeyError\<close>, and the two HTTP errors of the event handler.
\<close>

datatype error =
    PyException string
  | IndexError
  | KeyError
  | NotFoundError string
  | InternalServerError string

text \<open>
  An item of the table: its key (\<^verbatim>\<open>id\<close>, \<^verbatim>\<open>sortKey\<close>) and the attributes the booking path
  reads, each absent or present. An availability template is an item with \<^verbatim>\<open>data\<close>; an
  event type is an item with \<^verbatim>\<open>username\<close>, \<^verbatim>\<open>url\<close> and \<^verbatim>\<open>availability_id\<close>.
\<close>

record item =
  item_id :: string
  sortKey :: string
  username :: "string option"
  url :: "string option"
  availability_id :: "string option"
  data :: "availability option"

text \<open>The answer of \<^verbatim>\<open>get_availabilities\<close>; the body is the dictionary before \<^verbatim>\<open>json.dumps\<close>.\<close>

record response =
  statusCode :: int
  body :: free_times

section \<open>The predicates\<close>

text \<open>\<^verbatim>\<open>within_working_hours\<close> (lines 95 to 106): the first range that holds both ends wins.\<close>

fun within_working_hours :: "time_range list \<Rightarrow> datetime \<Rightarrow> datetime \<Rightarrow> bool" where
  "within_working_hours [] time_slot_start time_slot_end = False"
| "within_working_hours (time_range # working_hours) time_slot_start time_slot_end =
     (if (time_range_start time_range \<le> time_of time_slot_start
            \<and> time_of time_slot_start < time_range_end time_range)
         \<and> (time_range_start time_range \<le> time_of time_slot_end
            \<and> time_of time_slot_end \<le> time_range_end time_range)
      then True
      else within_working_hours working_hours time_slot_start time_slot_end)"

text \<open>\<^verbatim>\<open>overlapping_with_event\<close> (lines 128 to 140), with its three-clause test.\<close>

fun overlapping_with_event :: "event list \<Rightarrow> datetime \<Rightarrow> datetime \<Rightarrow> bool" where
  "overlapping_with_event [] time_slot_start time_slot_end = False"
| "overlapping_with_event (ev # events) time_slot_start time_slot_end =
     (if (time_slot_start \<ge> event_start ev \<and> time_slot_start < event_end ev)
         \<or> (time_slot_end > event_start ev \<and> time_slot_end \<le> event_end ev)
         \<or> (time_slot_start < event_start ev \<and> time_slot_end > event_end ev)
      then True
      else overlapping_with_event events time_slot_start time_slot_end)"

text \<open>
  The two-clause formula of the specification, written from its words: a busy interval
  overlaps the slot when \<open>slot_start < busy.end\<close> and \<open>slot_end > busy.start\<close>.
\<close>

definition overlaps_spec :: "event list \<Rightarrow> datetime \<Rightarrow> datetime \<Rightarrow> bool" where
  "overlaps_spec busy slot_start slot_end =
     list_ex (\<lambda>b. slot_start < event_end b \<and> slot_end > event_start b) busy"

section \<open>The window\<close>

text \<open>
  \<^verbatim>\<open>get_start_and_end_times\<close> (lines 57 to 71); the clock's \<^verbatim>\<open>datetime.now()\<close> is the
  argument.
\<close>

definition get_start_and_end_times :: "datetime \<Rightarrow> datetime \<times> datetime" where
  "get_start_and_end_times current_date =
     (let days_since_sunday = weekday current_date + 1;
          start_time = current_date - timedelta_days days_since_sunday;
          start_time = replace_time start_time 0 0 0 0;
          end_time = current_date + timedelta_weeks 6;
          days_to_next_saturday = 5 - weekday current_date;
          end_time = end_time + timedelta_days days_to_next_saturday;
          end_time = replace_time end_time 23 59 59 999999
      in (start_time, end_time))"

section \<open>The enumeration\<close>

text \<open>
  \<^verbatim>\<open>availability_data[i]\<close>: Python's list indexing, which counts a negative index from
  the end and raises \<^verbatim>\<open>IndexError\<close> out of range.
\<close>

definition list_index :: "'a list \<Rightarrow> int \<Rightarrow> error + 'a" where
  "list_index xs i =
     (if 0 \<le> i \<and> i < int (length xs) then Inr (xs ! nat i)
      else if i < 0 \<and> - int (length xs) \<le> i then Inr (xs ! nat (int (length xs) + i))
      else Inl IndexError)"

text \<open>\<^verbatim>\<open>freeTimes[date_str].append(transformed_slot)\<close> on the insertion-ordered dictionary.\<close>

fun append_slot :: "int \<Rightarrow> slot \<Rightarrow> free_times \<Rightarrow> free_times" where
  "append_slot k v [] = [(k, [v])]"
| "append_slot k v ((k', vs) # rest) =
     (if k = k' then (k', vs @ [v]) # rest else (k', vs) # append_slot k v rest)"

text \<open>Every slot recorded in the output, date by date.\<close>

definition recorded :: "free_times \<Rightarrow> slot list" where
  "recorded freeTimes = concat (map snd freeTimes)"

text \<open>
  The \<^verbatim>\<open>while\<close> loop of \<^verbatim>\<open>get_availabilities\<close> (lines 178 to 202). Its state is
  \<^verbatim>\<open>first_loop\<close>, \<^verbatim>\<open>time_slot_start\<close>, \<^verbatim>\<open>time_slot_end\<close> and \<^verbatim>\<open>freeTimes\<close>; the step
  \<open>duration\<close> is \<^verbatim>\<open>timedelta(seconds=duration_seconds)\<close>. The loop need not end for a
  step that is not positive, so the result is an option: \<open>None\<close> is a run that never
  returns. An exception ends the run with \<open>Inl\<close>.
\<close>

partial_function (option) slot_loop ::
  "timedelta \<Rightarrow> availability \<Rightarrow> event list \<Rightarrow> datetime \<Rightarrow>
   bool \<Rightarrow> datetime \<Rightarrow> datetime \<Rightarrow> free_times \<Rightarrow> (error + free_times) option"
where
  "slot_loop duration availability_data events end_time
       first_loop time_slot_start time_slot_end freeTimes =
     (if time_slot_end \<le> end_time then
        (let s = (if \<not> first_loop then time_slot_start + duration else time_slot_start);
             e = (if \<not> first_loop then time_slot_end + duration else time_slot_end)
         in case list_index availability_data (weekday s) of
              Inl err \<Rightarrow> Some (Inl err)
            | Inr working_hours \<Rightarrow>
                if \<not> within_working_hours working_hours s e then
                  slot_loop duration availability_data events end_time False s e freeTimes
                else if overlapping_with_event events s e then
                  slot_loop duration availability_data events end_time False s e freeTimes
                else
                  slot_loop duration availability_data events end_time False s e
                    (append_slot (date_str s) \<lparr>slot_time = s, users = []\<rparr> freeTimes))
      else Some (Inr freeTimes))"

text \<open>
  Lines 165 and 174 to 202: the enumeration of a horizon, from the first candidate
  \<open>(start_time, start_time + duration)\<close> and an empty \<^verbatim>\<open>freeTimes\<close>.
\<close>

definition enumerate_slots ::
  "timedelta \<Rightarrow> availability \<Rightarrow> event list \<Rightarrow> datetime \<Rightarrow> datetime \<Rightarrow>
   (error + free_times) option"
where
  "enumerate_slots duration availability_data events start_time end_time =
     slot_loop duration availability_data events end_time
       True start_time (start_time + duration) []"

section \<open>The default template\<close>

text \<open>\<^verbatim>\<open>default_availability\<close> of \<^verbatim>\<open>src/availabilities/availabilities.py\<close> (lines 91 to 103).\<close>

definition default_availability :: availability where
  "default_availability =
     (let start = mk_time 9 0 0 0;
          end_t = mk_time 17 0 0 0;
          weekday_slot = [\<lparr>time_range_start = start, time_range_end = end_t\<rparr>];
          weekend_slot = []
      in map (\<lambda>day. if day = 0 \<or> day = 6 then weekend_slot else weekday_slot) [0 ..< 7])"

section \<open>The orchestration\<close>

text \<open>
  \<^verbatim>\<open>table.get_item(Key={"id": id, "sortKey": sortKey})\<close>: the item of that key, when the
  table holds one.
\<close>

definition get_item :: "item list \<Rightarrow> string \<Rightarrow> string \<Rightarrow> item option" where
  "get_item table i sk = find (\<lambda>it. item_id it = i \<and> sortKey it = sk) table"

text \<open>
  \<^verbatim>\<open>get_availability\<close> (lines 31 to 45): the \<^verbatim>\<open>except\<close> clause logs and raises the same
  exception again.
\<close>

definition get_availability :: "item list \<Rightarrow> string \<Rightarrow> string \<Rightarrow> error + availability" where
  "get_availability table i availability_id' =
     (case get_item table i (''AVAILABILITY:'' @ availability_id') of
        None \<Rightarrow> Inl (PyException ''No availability found for the given IDs.'')
      | Some it \<Rightarrow>
          (case data it of
             None \<Rightarrow> Inl (PyException ''No availability found for the given IDs.'')
           | Some d \<Rightarrow> Inr d))"

text \<open>
  \<^verbatim>\<open>get_availabilities\<close> (lines 159 to 210). The busy-interval provider is the function
  \<open>fetch_events\<close> of the window and the owner; the clock is \<open>now\<close>. Every exception is
  logged and raised again unchanged.
\<close>

definition get_availabilities ::
  "item list \<Rightarrow> (datetime \<Rightarrow> datetime \<Rightarrow> string \<Rightarrow> error + event list) \<Rightarrow> datetime \<Rightarrow>
   item \<Rightarrow> (error + response) option"
where
  "get_availabilities table fetch_events now event_type =
     (case availability_id event_type of
        None \<Rightarrow> Some (Inl KeyError)
      | Some aid \<Rightarrow>
          (case get_availability table (item_id event_type) aid of
             Inl err \<Rightarrow> Some (Inl err)
           | Inr availability_data \<Rightarrow>
               (case get_start_and_end_times now of
                  (start_time, end_time) \<Rightarrow>
                    (case fetch_events start_time end_time (item_id event_type) of
                       Inl err \<Rightarrow> Some (Inl err)
                     | Inr events \<Rightarrow>
                         (let duration_seconds = 15 * 60 in
                          case enumerate_slots (timedelta_seconds duration_seconds)
                                 availability_data events start_time end_time of
                            None \<Rightarrow> None
                          | Some (Inl err) \<Rightarrow> Some (Inl err)
                          | Some (Inr freeTimes) \<Rightarrow>
                              Some (Inr \<lparr>statusCode = 200, body = freeTimes\<rparr>))))))"

text \<open>
  The two \<^verbatim>\<open>except\<close> clauses of \<^verbatim>\<open>src/book/book.py\<close>: a \<^verbatim>\<open>NotFoundError\<close> is raised
  again, any other exception becomes an \<^verbatim>\<open>InternalServerError\<close>.
\<close>

fun reraise :: "error \<Rightarrow> error" where
  "reraise (NotFoundError msg) = NotFoundError msg"
| "reraise err = InternalServerError ''Internal service error''"

text \<open>
  \<^verbatim>\<open>get_event_type_for_url\<close> (lines 107 to 138) as the booking path calls it, with
  \<^verbatim>\<open>public_use=False\<close>: the query on the index of usernames and URLs, and its first item.
\<close>

definition get_event_type_for_url :: "item list \<Rightarrow> string \<Rightarrow> string \<Rightarrow> error + item" where
  "get_event_type_for_url table username' url' =
     (if url' = ''RESERVED_FOR_INTERNAL_USE_ONLY'' then Inl (NotFoundError ''Reserved URL used.'')
      else
        (let items = filter (\<lambda>it. username it = Some username' \<and> url it = Some url') table
         in case items of
              [] \<Rightarrow> Inl (NotFoundError ''No event type found for the given username and URL.'')
            | it # _ \<Rightarrow> Inr it))"

text \<open>\<^verbatim>\<open>get_availabilities_for_url\<close> (lines 156 to 167).\<close>

definition get_availabilities_for_url ::
  "item list \<Rightarrow> (datetime \<Rightarrow> datetime \<Rightarrow> string \<Rightarrow> error + event list) \<Rightarrow> datetime \<Rightarrow>
   string \<Rightarrow> string \<Rightarrow> (error + response) option"
where
  "get_availabilities_for_url table fetch_events now username' url' =
     (case get_event_type_for_url table username' url' of
        Inl err \<Rightarrow> Some (Inl (reraise err))
      | Inr event_type \<Rightarrow>
          (case get_availabilities table fetch_events now event_type of
             None \<Rightarrow> None
           | Some (Inl err) \<Rightarrow> Some (Inl (reraise err))
           | Some (Inr r) \<Rightarrow> Some (Inr r)))"

section \<open>Example inputs\<close>

text \<open>
  The table of one owner: an event type as \<^verbatim>\<open>event_types.create\<close> stores it (its
  \<^verbatim>\<open>username\<close> is the owner's id), and an availability item under the sort key that
  \<^verbatim>\<open>get_availability\<close> builds.
\<close>

definition example_event_type :: item where
  "example_event_type =
     \<lparr>item_id = ''alice'', sortKey = ''EVENT:e1'', username = Some ''alice'', url = Some ''intro'',
      availability_id = Some ''a1'', data = None\<rparr>"

definition availability_item :: "availability \<Rightarrow> item" where
  "availability_item av =
     \<lparr>item_id = ''alice'', sortKey = ''AVAILABILITY:a1'', username = None, url = None,
      availability_id = None, data = Some av\<rparr>"

text \<open>A provider that reports no busy interval.\<close>

definition no_events :: "datetime \<Rightarrow> datetime \<Rightarrow> string \<Rightarrow> error + event list" where
  "no_events start_time end_time owner = Inr []"

text \<open>
  A template with one range, from 00:00:00 to 23:59:59, at index 5: the index of
  Saturday for \<^verbatim>\<open>weekday()\<close>.
\<close>

definition saturday_all_day :: availability where
  "saturday_all_day =
     [[], [], [], [], [],
      [\<lparr>time_range_start = mk_time 0 0 0 0, time_range_end = mk_time 23 59 59 0\<rparr>], []]"

section \<open>Dates and times of day\<close>

lemma day_number_add: "day_number (t + n * DAY) = day_number t + n"
  by (simp add: day_number_def DAY_def)

lemma day_number_compose: "0 \<le> x \<Longrightarrow> x < DAY \<Longrightarrow> day_number (k * DAY + x) = k"
  by (simp add: day_number_def DAY_def)

lemma time_of_compose: "0 \<le> x \<Longrightarrow> x < DAY \<Longrightarrow> time_of (k * DAY + x) = x"
  by (simp add: time_of_def DAY_def)

lemma split_datetime: "t = day_number t * DAY + time_of t"
  by (simp add: day_number_def time_of_def)

lemma time_of_bounds: "0 \<le> time_of t" "time_of t < DAY"
  by (simp_all add: time_of_def DAY_def)

lemma weekday_range: "0 \<le> weekday t" "weekday t < 7"
  by (simp_all add: weekday_def)

section \<open>The conflict detector\<close>

lemma overlapping_with_event_iff:
  "\<forall>b \<in> set events. event_start b < event_end b \<Longrightarrow> s < e \<Longrightarrow>
   overlapping_with_event events s e \<longleftrightarrow> (\<exists>b \<in> set events. s < event_end b \<and> e > event_start b)"
  by (induction events) auto

text \<open>
  Claim C1. When every busy interval has \<open>start < end\<close> and the slot has
  \<open>slot_start < slot_end\<close>, \<^verbatim>\<open>overlapping_with_event\<close> is true exactly when some busy
  interval has \<open>slot_start < busy.end\<close> and \<open>slot_end > busy.start\<close>: the three-clause test
  of the code equals the two-clause half-open formula of the specification. A slot
  that only touches the busy intervals (it ends where one starts, or starts where one
  ends) does not overlap.
\<close>

theorem overlapping_with_event_half_open:
  "\<forall>b \<in> set events. event_start b < event_end b \<Longrightarrow> time_slot_start < time_slot_end \<Longrightarrow>
   (overlapping_with_event events time_slot_start time_slot_end
      \<longleftrightarrow> (\<exists>b \<in> set events. time_slot_start < event_end b \<and> time_slot_end > event_start b))
   \<and> overlapping_with_event events time_slot_start time_slot_end
       = overlaps_spec events time_slot_start time_slot_end
   \<and> ((\<forall>b \<in> set events. time_slot_end = event_start b \<or> time_slot_start = event_end b)
        \<longrightarrow> \<not> overlapping_with_event events time_slot_start time_slot_end)"
  using overlapping_with_event_iff [of events time_slot_start time_slot_end]
  by (auto simp: overlaps_spec_def list_ex_iff)

text \<open>
  On 2023-10-03 (day 738795) the busy interval from 10:00 to 10:15 leaves the slot from
  10:15 to 10:30 free, and takes the slot from 10:00 to 10:15.
\<close>

theorem overlapping_with_event_half_open_witness:
  "\<not> overlapping_with_event
       [\<lparr>event_start = 738795 * DAY + mk_time 10 0 0 0, event_end = 738795 * DAY + mk_time 10 15 0 0\<rparr>]
       (738795 * DAY + mk_time 10 15 0 0) (738795 * DAY + mk_time 10 30 0 0)
   \<and> \<not> overlaps_spec
       [\<lparr>event_start = 738795 * DAY + mk_time 10 0 0 0, event_end = 738795 * DAY + mk_time 10 15 0 0\<rparr>]
       (738795 * DAY + mk_time 10 15 0 0) (738795 * DAY + mk_time 10 30 0 0)
   \<and> overlaps_spec
       [\<lparr>event_start = 738795 * DAY + mk_time 10 0 0 0, event_end = 738795 * DAY + mk_time 10 15 0 0\<rparr>]
       (738795 * DAY + mk_time 10 0 0 0) (738795 * DAY + mk_time 10 15 0 0)"
  using overlapping_with_event_half_open
      [of "[\<lparr>event_start = 738795 * DAY + mk_time 10 0 0 0,
              event_end = 738795 * DAY + mk_time 10 15 0 0\<rparr>]"
          "738795 * DAY + mk_time 10 15 0 0" "738795 * DAY + mk_time 10 30 0 0"]
    overlapping_with_event_half_open
      [of "[\<lparr>event_start = 738795 * DAY + mk_time 10 0 0 0,
              event_end = 738795 * DAY + mk_time 10 15 0 0\<rparr>]"
          "738795 * DAY + mk_time 10 0 0 0" "738795 * DAY + mk_time 10 15 0 0"]
  by (simp add: DAY_def mk_time_def)

section \<open>The working-hours matcher\<close>

lemma within_working_hours_iff:
  "within_working_hours rs s e \<longleftrightarrow>
     (\<exists>r \<in> set rs. time_range_start r \<le> time_of s \<and> time_of s < time_range_end r
        \<and> time_range_start r \<le> time_of e \<and> time_of e \<le> time_range_end r)"
  by (induction rs) auto

text \<open>
  Claim C2, as stated, fails where it says that a slot that straddles midnight is
  rejected: the matcher compares times of day only. With the single range from 00:00:00
  to 23:59:59, the slot from 2023-10-07 (day 738799) at 23:50 to the next day at 00:10 is
  within the working hours.
\<close>

theorem within_working_hours_midnight_counterexample:
  "day_number (738799 * DAY + mk_time 23 50 0 0) < day_number (738800 * DAY + mk_time 0 10 0 0)
   \<and> within_working_hours
       [\<lparr>time_range_start = mk_time 0 0 0 0, time_range_end = mk_time 23 59 59 0\<rparr>]
       (738799 * DAY + mk_time 23 50 0 0) (738800 * DAY + mk_time 0 10 0 0)"
  by (simp add: day_number_def time_of_def DAY_def mk_time_def)

text \<open>
  Claim C10. A range whose start is not before its end never satisfies the matching
  condition and so never admits a slot; \<^verbatim>\<open>within_working_hours\<close> gives the same answer
  on the whole list as on its ranges with \<open>start < end\<close> alone. The comparisons raise
  nothing: the function is total.
\<close>

theorem ill_formed_range_ignored:
  "(time_range_end r \<le> time_range_start r \<longrightarrow>
      \<not> (time_range_start r \<le> time_of time_slot_start \<and> time_of time_slot_start < time_range_end r
         \<and> time_range_start r \<le> time_of time_slot_end \<and> time_of time_slot_end \<le> time_range_end r)
      \<and> \<not> within_working_hours [r] time_slot_start time_slot_end)
   \<and> within_working_hours working_hours time_slot_start time_slot_end
       = within_working_hours (filter (\<lambda>r. time_range_start r < time_range_end r) working_hours)
           time_slot_start time_slot_end"
  unfolding within_working_hours_iff by auto

text \<open>
  The reversed range from 17:00 to 09:00 admits no slot, and beside the range from 09:00
  to 17:00 it changes nothing for the slot from 09:00 to 09:15 of 2023-10-03.
\<close>

theorem ill_formed_range_ignored_witness:
  "\<not> within_working_hours
       [\<lparr>time_range_start = mk_time 17 0 0 0, time_range_end = mk_time 9 0 0 0\<rparr>]
       (738795 * DAY + mk_time 9 0 0 0) (738795 * DAY + mk_time 9 15 0 0)
   \<and> within_working_hours
       [\<lparr>time_range_start = mk_time 17 0 0 0, time_range_end = mk_time 9 0 0 0\<rparr>,
        \<lparr>time_range_start = mk_time 9 0 0 0, time_range_end = mk_time 17 0 0 0\<rparr>]
       (738795 * DAY + mk_time 9 0 0 0) (738795 * DAY + mk_time 9 15 0 0)
     = within_working_hours
       [\<lparr>time_range_start = mk_time 9 0 0 0, time_range_end = mk_time 17 0 0 0\<rparr>]
       (738795 * DAY + mk_time 9 0 0 0) (738795 * DAY + mk_time 9 15 0 0)"
  using ill_formed_range_ignored
      [of "\<lparr>time_range_start = mk_time 17 0 0 0, time_range_end = mk_time 9 0 0 0\<rparr>"
          "738795 * DAY + mk_time 9 0 0 0" "738795 * DAY + mk_time 9 15 0 0"
          "[\<lparr>time_range_start = mk_time 17 0 0 0, time_range_end = mk_time 9 0 0 0\<rparr>,
            \<lparr>time_range_start = mk_time 9 0 0 0, time_range_end = mk_time 17 0 0 0\<rparr>]"]
  by (simp add: mk_time_def)

section \<open>The window calculator\<close>

lemma start_time_eq:
  "fst (get_start_and_end_times now) = (day_number now - (weekday now + 1)) * DAY"
proof -
  have "now - (weekday now + 1) * DAY = now + (- (weekday now + 1)) * DAY"
    by (simp add: algebra_simps)
  then have "day_number (now - (weekday now + 1) * DAY) = day_number now + (- (weekday now + 1))"
    by (simp only: day_number_add)
  then show ?thesis
    by (simp add: get_start_and_end_times_def Let_def replace_time_def timedelta_days_def mk_time_def)
qed

lemma end_time_eq:
  "snd (get_start_and_end_times now)
     = (day_number now + 47 - weekday now) * DAY + mk_time 23 59 59 999999"
proof -
  have "now + 42 * DAY + (5 - weekday now) * DAY = now + (47 - weekday now) * DAY"
    by (simp add: algebra_simps)
  then have "day_number (now + 42 * DAY + (5 - weekday now) * DAY)
      = day_number now + (47 - weekday now)"
    by (simp only: day_number_add)
  then show ?thesis
    by (simp add: get_start_and_end_times_def Let_def replace_time_def timedelta_days_def
        timedelta_weeks_def)
qed

lemma weekday_start: "weekday ((day_number now - (weekday now + 1)) * DAY) = 6"
proof -
  have "day_number ((day_number now - (weekday now + 1)) * DAY + 0)
      = day_number now - (weekday now + 1)"
    by (rule day_number_compose) (simp_all add: DAY_def)
  moreover have "(day_number now - (day_number now mod 7 + 1)) mod 7 = 6"
    by presburger
  ultimately show ?thesis by (simp add: weekday_def)
qed

lemma weekday_end:
  "weekday ((day_number now + 47 - weekday now) * DAY + mk_time 23 59 59 999999) = 5"
proof -
  have "day_number ((day_number now + 47 - weekday now) * DAY + mk_time 23 59 59 999999)
      = day_number now + 47 - weekday now"
    by (rule day_number_compose) (simp_all add: DAY_def mk_time_def)
  moreover have "(day_number now + 47 - day_number now mod 7) mod 7 = 5"
    by presburger
  ultimately show ?thesis by (simp add: weekday_def)
qed

text \<open>
  Claim C6. For every \<open>now\<close>, the start of the window is a Sunday (weekday 6) at
  00:00:00, its end is a Saturday (weekday 5) at 23:59:59.999999, and \<open>now\<close> lies between
  the two.
\<close>

theorem window_correct:
  "(case get_start_and_end_times now of
      (horizon_start, horizon_end) \<Rightarrow>
        weekday horizon_start = 6 \<and> time_of horizon_start = mk_time 0 0 0 0
        \<and> weekday horizon_end = 5 \<and> time_of horizon_end = mk_time 23 59 59 999999
        \<and> horizon_start \<le> now \<and> now \<le> horizon_end)"
proof -
  let ?hs = "(day_number now - (weekday now + 1)) * DAY"
  let ?he = "(day_number now + 47 - weekday now) * DAY + mk_time 23 59 59 999999"
  have w: "0 \<le> weekday now" "weekday now < 7" by (rule weekday_range)+
  have t: "0 \<le> time_of now" "time_of now < DAY" by (rule time_of_bounds)+
  have n: "now = day_number now * DAY + time_of now" by (rule split_datetime)
  have 1: "time_of ?hs = mk_time 0 0 0 0"
    using time_of_compose [of 0 "day_number now - (weekday now + 1)"]
    by (simp add: DAY_def mk_time_def)
  have 2: "time_of ?he = mk_time 23 59 59 999999"
    by (rule time_of_compose) (simp_all add: DAY_def mk_time_def)
  have "?hs = day_number now * DAY - (weekday now + 1) * DAY" by (simp add: algebra_simps)
  moreover have "0 \<le> (weekday now + 1) * DAY" using w by (simp add: DAY_def)
  ultimately have 3: "?hs \<le> now" using n t by linarith
  have "?he = day_number now * DAY + (47 - weekday now) * DAY + mk_time 23 59 59 999999"
    by (simp add: algebra_simps)
  moreover have "DAY \<le> (47 - weekday now) * DAY" using w by (simp add: DAY_def)
  moreover have "0 \<le> mk_time 23 59 59 999999" by (simp add: mk_time_def)
  ultimately have 4: "now \<le> ?he" using n t by linarith
  have "get_start_and_end_times now = (?hs, ?he)"
    using start_time_eq [of now] end_time_eq [of now] by (simp add: prod_eq_iff)
  then show ?thesis using 1 2 3 4 weekday_start [of now] weekday_end [of now] by simp
qed

text \<open>
  On Monday to Saturday the start of the window is the most recent Sunday at 00:00:00
  relative to \<open>now\<close>: a Sunday midnight that is not after \<open>now\<close> and less than a week
  before it.
\<close>

lemma horizon_start_most_recent_sunday:
  assumes "weekday now \<noteq> 6"
  shows "(case get_start_and_end_times now of
      (horizon_start, horizon_end) \<Rightarrow>
        weekday horizon_start = 6 \<and> time_of horizon_start = mk_time 0 0 0 0
        \<and> horizon_start \<le> now \<and> now < horizon_start + timedelta_days 7)"
proof -
  let ?hs = "(day_number now - (weekday now + 1)) * DAY"
  have hs: "fst (get_start_and_end_times now) = ?hs" by (rule start_time_eq)
  have w: "0 \<le> weekday now" "weekday now < 7" by (rule weekday_range)+
  have t: "0 \<le> time_of now" "time_of now < DAY" by (rule time_of_bounds)+
  have n: "now = day_number now * DAY + time_of now" by (rule split_datetime)
  have tm: "time_of ?hs = mk_time 0 0 0 0"
    using time_of_compose [of 0 "day_number now - (weekday now + 1)"]
    by (simp add: DAY_def mk_time_def)
  have e: "?hs = day_number now * DAY - (weekday now + 1) * DAY" by (simp add: algebra_simps)
  have le: "?hs \<le> now"
  proof -
    have "0 \<le> (weekday now + 1) * DAY" using w by (simp add: DAY_def)
    then show ?thesis using e n t by linarith
  qed
  have lt: "now < ?hs + timedelta_days 7"
  proof -
    from assms w have "weekday now + 1 \<le> 6" by simp
    then have "(weekday now + 1) * DAY \<le> 6 * DAY" by (simp add: DAY_def)
    then show ?thesis using e n t unfolding timedelta_days_def by linarith
  qed
  show ?thesis
    using hs weekday_start [of now] tm le lt by (simp add: case_prod_unfold)
qed

text \<open>
  Claim C5 against the code. The claim says that the start of the window is the most
  recent Sunday at 00:00:00 relative to \<open>now\<close>, and the midnight of that same day when
  \<open>now\<close> falls on a Sunday. At 10:00 of Sunday 2023-10-01 (day 738793)
  \<^verbatim>\<open>days_since_sunday\<close> is 7 and \<^verbatim>\<open>days_to_next_saturday\<close> is -1: the window starts at the
  midnight of Sunday 2023-09-24 (day 738786), a whole week before \<open>now\<close> and not at the
  midnight of that same day, and it ends on Saturday 2023-11-11 (day 738834), before
  \<open>now\<close> plus six weeks.
\<close>

theorem sunday_window_a_week_early:
  "weekday (738793 * DAY + mk_time 10 0 0 0) = 6
   \<and> get_start_and_end_times (738793 * DAY + mk_time 10 0 0 0)
       = (738786 * DAY, 738834 * DAY + mk_time 23 59 59 999999)
   \<and> fst (get_start_and_end_times (738793 * DAY + mk_time 10 0 0 0))
       \<noteq> replace_time (738793 * DAY + mk_time 10 0 0 0) 0 0 0 0
   \<and> fst (get_start_and_end_times (738793 * DAY + mk_time 10 0 0 0)) + timedelta_days 7
       \<le> 738793 * DAY + mk_time 10 0 0 0
   \<and> snd (get_start_and_end_times (738793 * DAY + mk_time 10 0 0 0))
       < 738793 * DAY + mk_time 10 0 0 0 + timedelta_weeks 6"
  by (simp add: get_start_and_end_times_def weekday_def day_number_def DAY_def mk_time_def
      replace_time_def timedelta_days_def timedelta_weeks_def Let_def)

section \<open>The slot enumerator\<close>

subsection \<open>The recorded slots\<close>

lemma recorded_Nil: "recorded [] = []"
  by (simp add: recorded_def)

lemma recorded_Cons: "recorded ((k, vs) # rest) = vs @ recorded rest"
  by (simp add: recorded_def)

lemma recorded_append_slot:
  "set (recorded (append_slot k v freeTimes)) = insert v (set (recorded freeTimes))"
  by (induction k v freeTimes rule: append_slot.induct)
     (simp_all add: recorded_Nil recorded_Cons)

subsection \<open>One turn of the loop\<close>

lemma slot_loop_exit:
  "\<not> e \<le> en \<Longrightarrow> slot_loop d av ev en first s e acc = Some (Inr acc)"
  by (subst slot_loop.simps) simp

lemma slot_loop_first:
  "e \<le> en \<Longrightarrow>
   slot_loop d av ev en True s e acc =
     (case list_index av (weekday s) of
        Inl err \<Rightarrow> Some (Inl err)
      | Inr wh \<Rightarrow>
          slot_loop d av ev en False s e
            (if within_working_hours wh s e \<and> \<not> overlapping_with_event ev s e
             then append_slot (date_str s) \<lparr>slot_time = s, users = []\<rparr> acc else acc))"
  by (subst slot_loop.simps) (simp add: Let_def split: sum.splits)

lemma slot_loop_next:
  "e \<le> en \<Longrightarrow>
   slot_loop d av ev en False s e acc =
     (case list_index av (weekday (s + d)) of
        Inl err \<Rightarrow> Some (Inl err)
      | Inr wh \<Rightarrow>
          slot_loop d av ev en False (s + d) (e + d)
            (if within_working_hours wh (s + d) (e + d)
                \<and> \<not> overlapping_with_event ev (s + d) (e + d)
             then append_slot (date_str (s + d)) \<lparr>slot_time = s + d, users = []\<rparr> acc
             else acc))"
  by (subst slot_loop.simps) (simp add: Let_def split: sum.splits)

lemma list_index_weekday:
  "7 \<le> length av \<Longrightarrow> list_index av (weekday t) = Inr (av ! nat (weekday t))"
  using weekday_range [of t] by (simp add: list_index_def)

subsection \<open>What is recorded passed both predicates\<close>

text \<open>
  Partial correctness, by the induction rule of the loop: it holds for every step, also
  one for which the loop does not end.
\<close>

lemma slot_loop_recorded:
  assumes "slot_loop d av ev en first s e acc = Some r"
    and "e = s + d"
    and "\<forall>x \<in> set (recorded acc).
           \<not> overlapping_with_event ev (slot_time x) (slot_time x + d)
           \<and> (\<exists>wh. list_index av (weekday (slot_time x)) = Inr wh
                  \<and> within_working_hours wh (slot_time x) (slot_time x + d))"
    and "r = Inr out"
  shows "\<forall>x \<in> set (recorded out).
           \<not> overlapping_with_event ev (slot_time x) (slot_time x + d)
           \<and> (\<exists>wh. list_index av (weekday (slot_time x)) = Inr wh
                  \<and> within_working_hours wh (slot_time x) (slot_time x + d))"
  using assms
proof (induction d av ev en first s e acc r rule: slot_loop.raw_induct [rotated 1, consumes 1])
  case (1 loop d av ev en first s e acc r)
  show ?case
  proof (cases "e \<le> en")
    case False
    with 1(2,5) have "out = acc" by simp
    with 1(4) show ?thesis by simp
  next
    case True
    define s' where "s' = (if \<not> first then s + d else s)"
    define e' where "e' = (if \<not> first then e + d else e)"
    have e': "e' = s' + d" using 1(3) by (simp add: s'_def e'_def)
    have body0: "(case list_index av (weekday s') of
             Inl err \<Rightarrow> Some (Inl err)
           | Inr wh \<Rightarrow>
               if \<not> within_working_hours wh s' e' then loop d av ev en False s' e' acc
               else if overlapping_with_event ev s' e' then loop d av ev en False s' e' acc
               else loop d av ev en False s' e'
                      (append_slot (date_str s') \<lparr>slot_time = s', users = []\<rparr> acc)) = Some r"
      unfolding s'_def e'_def using True 1(2) by (simp only: if_True Let_def)
    then obtain wh where wh: "list_index av (weekday s') = Inr wh"
      using 1(5) by (cases "list_index av (weekday s')") auto
    with body0 have body:
      "(if \<not> within_working_hours wh s' e' then loop d av ev en False s' e' acc
        else if overlapping_with_event ev s' e' then loop d av ev en False s' e' acc
        else loop d av ev en False s' e'
               (append_slot (date_str s') \<lparr>slot_time = s', users = []\<rparr> acc)) = Some r"
      by simp
    show ?thesis
    proof (cases "within_working_hours wh s' e' \<and> \<not> overlapping_with_event ev s' e'")
      case False
      with body have "loop d av ev en False s' e' acc = Some r" by (auto split: if_splits)
      then show ?thesis using 1(1) e' 1(4,5) by blast
    next
      case True
      with body have run: "loop d av ev en False s' e'
          (append_slot (date_str s') \<lparr>slot_time = s', users = []\<rparr> acc) = Some r" by simp
      show ?thesis
      proof (rule 1(1) [OF run e' _ 1(5)])
        show "\<forall>x \<in> set (recorded (append_slot (date_str s') \<lparr>slot_time = s', users = []\<rparr> acc)).
           \<not> overlapping_with_event ev (slot_time x) (slot_time x + d)
           \<and> (\<exists>wh. list_index av (weekday (slot_time x)) = Inr wh
                  \<and> within_working_hours wh (slot_time x) (slot_time x + d))"
          using 1(4) True wh e' by (simp add: recorded_append_slot)
      qed
    qed
  qed
qed

text \<open>
  Claim C3. For every template, list of busy events and horizon, every slot recorded in
  the output of the enumeration, taken with its end \<open>slot_time + duration\<close>, does not
  overlap a busy event and lies within the working hours that the template holds at the
  weekday of its start.
\<close>

theorem recorded_slots_free_and_within:
  "enumerate_slots duration availability_data events start_time end_time = Some (Inr freeTimes) \<Longrightarrow>
   \<forall>x \<in> set (recorded freeTimes).
     \<not> overlapping_with_event events (slot_time x) (slot_time x + duration)
     \<and> (\<exists>working_hours.
           list_index availability_data (weekday (slot_time x)) = Inr working_hours
           \<and> within_working_hours working_hours (slot_time x) (slot_time x + duration))"
  unfolding enumerate_slots_def
  by (erule slot_loop_recorded [OF _ refl _ refl]) (simp add: recorded_Nil)

lemma default_availability_eval:
  "default_availability =
     [[], [\<lparr>time_range_start = 32400000000, time_range_end = 61200000000\<rparr>],
      [\<lparr>time_range_start = 32400000000, time_range_end = 61200000000\<rparr>],
      [\<lparr>time_range_start = 32400000000, time_range_end = 61200000000\<rparr>],
      [\<lparr>time_range_start = 32400000000, time_range_end = 61200000000\<rparr>],
      [\<lparr>time_range_start = 32400000000, time_range_end = 61200000000\<rparr>], []]"
  by (simp add: default_availability_def mk_time_def upt_conv_Cons Let_def)

text \<open>
  The horizon from 09:00 to 09:15 of Tuesday 2023-10-03 (day 738795), with the default
  template and a busy event from 09:00 to 09:15: the slot at 09:00 is taken, and the loop
  records the slot at 09:15.
\<close>

lemma enumerate_example:
  "enumerate_slots 900000000 default_availability
     [\<lparr>event_start = 738795 * DAY + mk_time 9 0 0 0, event_end = 738795 * DAY + mk_time 9 15 0 0\<rparr>]
     (738795 * DAY + mk_time 9 0 0 0) (738795 * DAY + mk_time 9 15 0 0)
   = Some (Inr [(738795, [\<lparr>slot_time = 738795 * DAY + mk_time 9 15 0 0, users = []\<rparr>])])"
  by (simp add: enumerate_slots_def slot_loop_first slot_loop_next slot_loop_exit
      default_availability_eval list_index_def weekday_def day_number_def time_of_def DAY_def
      mk_time_def date_str_def)

theorem recorded_slots_free_and_within_witness:
  "enumerate_slots 900000000 default_availability
     [\<lparr>event_start = 738795 * DAY + mk_time 9 0 0 0, event_end = 738795 * DAY + mk_time 9 15 0 0\<rparr>]
     (738795 * DAY + mk_time 9 0 0 0) (738795 * DAY + mk_time 9 15 0 0)
   = Some (Inr [(738795, [\<lparr>slot_time = 738795 * DAY + mk_time 9 15 0 0, users = []\<rparr>])])
   \<and> \<not> overlapping_with_event
         [\<lparr>event_start = 738795 * DAY + mk_time 9 0 0 0, event_end = 738795 * DAY + mk_time 9 15 0 0\<rparr>]
         (738795 * DAY + mk_time 9 15 0 0) (738795 * DAY + mk_time 9 15 0 0 + 900000000)
   \<and> (\<exists>working_hours.
         list_index default_availability (weekday (738795 * DAY + mk_time 9 15 0 0))
           = Inr working_hours
         \<and> within_working_hours working_hours
             (738795 * DAY + mk_time 9 15 0 0) (738795 * DAY + mk_time 9 15 0 0 + 900000000))"
  using recorded_slots_free_and_within [OF enumerate_example] enumerate_example
  by (simp add: recorded_def)

subsection \<open>Working hours at the matcher and at the enumerator\<close>

lemma empty_day_no_slot:
  assumes "enumerate_slots d av ev start_time end_time = Some (Inr freeTimes)"
    and "list_index av w = Inr []"
    and "x \<in> set (recorded freeTimes)"
  shows "weekday (slot_time x) \<noteq> w"
proof
  assume w: "weekday (slot_time x) = w"
  have "\<forall>x \<in> set (recorded freeTimes).
           \<not> overlapping_with_event ev (slot_time x) (slot_time x + d)
           \<and> (\<exists>wh. list_index av (weekday (slot_time x)) = Inr wh
                  \<and> within_working_hours wh (slot_time x) (slot_time x + d))"
    using assms(1) unfolding enumerate_slots_def
    by (rule slot_loop_recorded [OF _ refl _ refl]) (simp add: recorded_Nil)
  with assms(3) obtain wh where "list_index av (weekday (slot_time x)) = Inr wh"
    and "within_working_hours wh (slot_time x) (slot_time x + d)" by blast
  with w assms(2) show False by simp
qed

text \<open>
  Claim C2, amended. \<^verbatim>\<open>within_working_hours\<close> is true exactly when some range \<open>r\<close> of
  \<open>day_ranges\<close> has \<open>r.start \<le> slot_start.time() < r.end\<close> and
  \<open>r.start \<le> slot_end.time() \<le> r.end\<close>. So it is false for an empty list, and the
  enumeration records no slot on a weekday whose list of ranges in the template is
  empty. A slot that spans two disjoint ranges, starting in one and ending inside a
  later one, is never admitted by those two: it is accepted only when a further single
  range holds both of its ends, and it is rejected whenever the ranges of the list are
  pairwise disjoint. A slot that straddles midnight, so that its end's time of day is
  before its start's, is accepted exactly when one range \<open>r\<close> has
  \<open>r.start \<le> slot_end.time()\<close> and \<open>slot_start.time() < r.end\<close>, and rejected otherwise.
\<close>

theorem within_working_hours_some_range:
  "(within_working_hours day_ranges slot_start slot_end \<longleftrightarrow>
      (\<exists>r \<in> set day_ranges.
          time_range_start r \<le> time_of slot_start \<and> time_of slot_start < time_range_end r
        \<and> time_range_start r \<le> time_of slot_end \<and> time_of slot_end \<le> time_range_end r))
   \<and> \<not> within_working_hours [] slot_start slot_end
   \<and> (enumerate_slots duration availability_data events start_time end_time = Some (Inr freeTimes)
        \<and> list_index availability_data w = Inr []
        \<longrightarrow> (\<forall>x \<in> set (recorded freeTimes). weekday (slot_time x) \<noteq> w))
   \<and> (r1 \<in> set day_ranges \<and> r2 \<in> set day_ranges
        \<and> time_range_end r1 \<le> time_range_start r2
        \<and> time_range_start r1 \<le> time_of slot_start \<and> time_of slot_start < time_range_end r1
        \<and> time_range_start r2 < time_of slot_end \<and> time_of slot_end \<le> time_range_end r2
        \<longrightarrow> (within_working_hours day_ranges slot_start slot_end \<longleftrightarrow>
               (\<exists>r \<in> set day_ranges. r \<noteq> r1 \<and> r \<noteq> r2
                  \<and> time_range_start r \<le> time_of slot_start
                  \<and> time_of slot_start < time_range_end r
                  \<and> time_range_start r \<le> time_of slot_end
                  \<and> time_of slot_end \<le> time_range_end r)))
   \<and> ((\<forall>r \<in> set day_ranges. \<forall>r' \<in> set day_ranges.
           r \<noteq> r' \<longrightarrow> time_range_end r \<le> time_range_start r'
                        \<or> time_range_end r' \<le> time_range_start r)
        \<and> r1 \<in> set day_ranges \<and> r2 \<in> set day_ranges
        \<and> time_range_end r1 \<le> time_range_start r2
        \<and> time_range_start r1 \<le> time_of slot_start \<and> time_of slot_start < time_range_end r1
        \<and> time_range_start r2 < time_of slot_end \<and> time_of slot_end \<le> time_range_end r2
        \<longrightarrow> \<not> within_working_hours day_ranges slot_start slot_end)
   \<and> (time_of slot_end < time_of slot_start \<longrightarrow>
        (within_working_hours day_ranges slot_start slot_end \<longleftrightarrow>
           (\<exists>r \<in> set day_ranges.
              time_range_start r \<le> time_of slot_end \<and> time_of slot_start < time_range_end r)))"
proof (intro conjI impI)
  show "within_working_hours day_ranges slot_start slot_end \<longleftrightarrow>
      (\<exists>r \<in> set day_ranges.
          time_range_start r \<le> time_of slot_start \<and> time_of slot_start < time_range_end r
        \<and> time_range_start r \<le> time_of slot_end \<and> time_of slot_end \<le> time_range_end r)"
    by (rule within_working_hours_iff)
  show "\<not> within_working_hours [] slot_start slot_end" by simp
next
  assume "enumerate_slots duration availability_data events start_time end_time
            = Some (Inr freeTimes)
        \<and> list_index availability_data w = Inr []"
  then show "\<forall>x \<in> set (recorded freeTimes). weekday (slot_time x) \<noteq> w"
    using empty_day_no_slot by blast
next
  assume a: "r1 \<in> set day_ranges \<and> r2 \<in> set day_ranges
        \<and> time_range_end r1 \<le> time_range_start r2
        \<and> time_range_start r1 \<le> time_of slot_start \<and> time_of slot_start < time_range_end r1
        \<and> time_range_start r2 < time_of slot_end \<and> time_of slot_end \<le> time_range_end r2"
  show "within_working_hours day_ranges slot_start slot_end \<longleftrightarrow>
               (\<exists>r \<in> set day_ranges. r \<noteq> r1 \<and> r \<noteq> r2
                  \<and> time_range_start r \<le> time_of slot_start
                  \<and> time_of slot_start < time_range_end r
                  \<and> time_range_start r \<le> time_of slot_end
                  \<and> time_of slot_end \<le> time_range_end r)"
    unfolding within_working_hours_iff using a by (intro bex_cong refl) auto
next
  assume a: "(\<forall>r \<in> set day_ranges. \<forall>r' \<in> set day_ranges.
           r \<noteq> r' \<longrightarrow> time_range_end r \<le> time_range_start r'
                        \<or> time_range_end r' \<le> time_range_start r)
        \<and> r1 \<in> set day_ranges \<and> r2 \<in> set day_ranges
        \<and> time_range_end r1 \<le> time_range_start r2
        \<and> time_range_start r1 \<le> time_of slot_start \<and> time_of slot_start < time_range_end r1
        \<and> time_range_start r2 < time_of slot_end \<and> time_of slot_end \<le> time_range_end r2"
  show "\<not> within_working_hours day_ranges slot_start slot_end"
  proof
    assume "within_working_hours day_ranges slot_start slot_end"
    then obtain r where r: "r \<in> set day_ranges"
        "time_range_start r \<le> time_of slot_start" "time_of slot_start < time_range_end r"
        "time_range_start r \<le> time_of slot_end" "time_of slot_end \<le> time_range_end r"
      unfolding within_working_hours_iff by blast
    have "r = r1"
    proof (rule ccontr)
      assume "r \<noteq> r1"
      with a r(1) have "time_range_end r \<le> time_range_start r1
          \<or> time_range_end r1 \<le> time_range_start r" by blast
      with a r(2,3) show False by linarith
    qed
    with a r(5) show False by auto
  qed
next
  assume less: "time_of slot_end < time_of slot_start"
  show "within_working_hours day_ranges slot_start slot_end \<longleftrightarrow>
           (\<exists>r \<in> set day_ranges.
              time_range_start r \<le> time_of slot_end \<and> time_of slot_start < time_range_end r)"
    unfolding within_working_hours_iff using less by (intro bex_cong refl) auto
qed

text \<open>
  With the ranges 09:00 to 12:00 and 13:00 to 17:00, the slot from 11:45 to 13:15 of
  2023-10-03 spans both and is rejected. The slot from 23:50 of 2023-10-07 to 00:10 of
  the next day is accepted by the range from 00:00:00 to 23:59:59. The default template
  is empty at index 6, and the slot that the enumeration of the example horizon records
  is not on weekday 6.
\<close>

theorem within_working_hours_some_range_witness:
  "\<not> within_working_hours
       [\<lparr>time_range_start = mk_time 9 0 0 0, time_range_end = mk_time 12 0 0 0\<rparr>,
        \<lparr>time_range_start = mk_time 13 0 0 0, time_range_end = mk_time 17 0 0 0\<rparr>]
       (738795 * DAY + mk_time 11 45 0 0) (738795 * DAY + mk_time 13 15 0 0)
   \<and> within_working_hours
       [\<lparr>time_range_start = mk_time 0 0 0 0, time_range_end = mk_time 23 59 59 0\<rparr>]
       (738799 * DAY + mk_time 23 50 0 0) (738800 * DAY + mk_time 0 10 0 0)
   \<and> list_index default_availability 6 = Inr []
   \<and> enumerate_slots 900000000 default_availability
       [\<lparr>event_start = 738795 * DAY + mk_time 9 0 0 0, event_end = 738795 * DAY + mk_time 9 15 0 0\<rparr>]
       (738795 * DAY + mk_time 9 0 0 0) (738795 * DAY + mk_time 9 15 0 0)
     = Some (Inr [(738795, [\<lparr>slot_time = 738795 * DAY + mk_time 9 15 0 0, users = []\<rparr>])])
   \<and> weekday (738795 * DAY + mk_time 9 15 0 0) \<noteq> 6"
  using within_working_hours_some_range
      [where day_ranges =
          "[\<lparr>time_range_start = mk_time 9 0 0 0, time_range_end = mk_time 12 0 0 0\<rparr>,
            \<lparr>time_range_start = mk_time 13 0 0 0, time_range_end = mk_time 17 0 0 0\<rparr>]"
        and slot_start = "738795 * DAY + mk_time 11 45 0 0"
        and slot_end = "738795 * DAY + mk_time 13 15 0 0"
        and ?r1.0 = "\<lparr>time_range_start = mk_time 9 0 0 0, time_range_end = mk_time 12 0 0 0\<rparr>"
        and ?r2.0 = "\<lparr>time_range_start = mk_time 13 0 0 0, time_range_end = mk_time 17 0 0 0\<rparr>"
        and duration = 900000000 and availability_data = default_availability
        and events = "[\<lparr>event_start = 738795 * DAY + mk_time 9 0 0 0,
                         event_end = 738795 * DAY + mk_time 9 15 0 0\<rparr>]"
        and start_time = "738795 * DAY + mk_time 9 0 0 0"
        and end_time = "738795 * DAY + mk_time 9 15 0 0"
        and freeTimes =
          "[(738795, [\<lparr>slot_time = 738795 * DAY + mk_time 9 15 0 0, users = []\<rparr>])]"
        and w = 6]
    within_working_hours_some_range
      [where day_ranges =
          "[\<lparr>time_range_start = mk_time 0 0 0 0, time_range_end = mk_time 23 59 59 0\<rparr>]"
        and slot_start = "738799 * DAY + mk_time 23 50 0 0"
        and slot_end = "738800 * DAY + mk_time 0 10 0 0"]
    enumerate_example
  by (simp add: recorded_def default_availability_eval list_index_def time_of_def DAY_def
      mk_time_def)

subsection \<open>The loop ends\<close>

lemma slot_loop_returns_next:
  "0 < d \<Longrightarrow>
   \<exists>r. slot_loop d av ev en False s e acc = Some r \<and> (7 \<le> length av \<longrightarrow> (\<exists>out. r = Inr out))"
proof (induction "nat (en + 1 - e)" arbitrary: s e acc rule: less_induct)
  case less
  show ?case
  proof (cases "e \<le> en")
    case False
    then show ?thesis by (simp add: slot_loop_exit)
  next
    case True
    show ?thesis
    proof (cases "list_index av (weekday (s + d))")
      case (Inl err)
      moreover from Inl have "\<not> 7 \<le> length av" using list_index_weekday [of av "s + d"] by auto
      ultimately show ?thesis using True by (simp add: slot_loop_next)
    next
      case (Inr wh)
      have "nat (en + 1 - (e + d)) < nat (en + 1 - e)" using True less.prems by simp
      from less.hyps [OF this less.prems] Inr True show ?thesis
        by (simp add: slot_loop_next)
    qed
  qed
qed

lemma slot_loop_returns:
  assumes "0 < d"
  shows "\<exists>r. slot_loop d av ev en first s e acc = Some r
            \<and> (7 \<le> length av \<longrightarrow> (\<exists>out. r = Inr out))"
proof (cases first)
  case False
  then show ?thesis using slot_loop_returns_next [OF assms] by simp
next
  case True
  show ?thesis
  proof (cases "e \<le> en")
    case False
    then show ?thesis by (simp add: slot_loop_exit)
  next
    case le: True
    show ?thesis
    proof (cases "list_index av (weekday s)")
      case (Inl err)
      moreover from Inl have "\<not> 7 \<le> length av" using list_index_weekday [of av s] by auto
      ultimately show ?thesis using True le by (simp add: slot_loop_first)
    next
      case (Inr wh)
      then show ?thesis
        using True le slot_loop_returns_next [OF assms] by (simp add: slot_loop_first)
    qed
  qed
qed

text \<open>
  Claim C9. For every horizon and every step greater than zero the loop returns, from
  any of its states, and so does the enumeration: the end of the slot grows by the step
  in every turn after the first, and the loop stops once it passes the end of the
  horizon.
\<close>

theorem slot_loop_terminates:
  "0 < duration \<Longrightarrow>
   (\<exists>r. slot_loop duration availability_data events end_time
           first_loop time_slot_start time_slot_end freeTimes = Some r)
   \<and> (\<exists>r. enumerate_slots duration availability_data events start_time end_time = Some r)"
  unfolding enumerate_slots_def
  using slot_loop_returns [of duration availability_data events end_time first_loop
      time_slot_start time_slot_end freeTimes]
    slot_loop_returns [of duration availability_data events end_time True start_time
      "start_time + duration" "[]"]
  by blast

theorem slot_loop_terminates_witness:
  "(\<exists>r. slot_loop 900000000 default_availability [] (738841 * DAY + mk_time 23 59 59 999999)
           False (738793 * DAY) (738793 * DAY + 900000000) [] = Some r)
   \<and> (\<exists>r. enumerate_slots 900000000 default_availability []
           (738793 * DAY) (738841 * DAY + mk_time 23 59 59 999999) = Some r)"
  using slot_loop_terminates [of 900000000 default_availability "[]"
      "738841 * DAY + mk_time 23 59 59 999999" False "738793 * DAY" "738793 * DAY + 900000000"
      "[]" "738793 * DAY"]
  by simp

subsection \<open>Every candidate that passes is recorded\<close>

lemma slot_loop_keeps:
  assumes "slot_loop d av ev en first s e acc = Some r"
    and "r = Inr out"
    and "x \<in> set (recorded acc)"
  shows "x \<in> set (recorded out)"
  using assms
proof (induction d av ev en first s e acc r rule: slot_loop.raw_induct [rotated 1, consumes 1])
  case (1 loop d av ev en first s e acc r)
  show ?case
  proof (cases "e \<le> en")
    case False
    with 1(2,3) have "out = acc" by simp
    with 1(4) show ?thesis by simp
  next
    case True
    define s' where "s' = (if \<not> first then s + d else s)"
    define e' where "e' = (if \<not> first then e + d else e)"
    have body0: "(case list_index av (weekday s') of
             Inl err \<Rightarrow> Some (Inl err)
           | Inr wh \<Rightarrow>
               if \<not> within_working_hours wh s' e' then loop d av ev en False s' e' acc
               else if overlapping_with_event ev s' e' then loop d av ev en False s' e' acc
               else loop d av ev en False s' e'
                      (append_slot (date_str s') \<lparr>slot_time = s', users = []\<rparr> acc)) = Some r"
      unfolding s'_def e'_def using True 1(2) by (simp only: if_True Let_def)
    then obtain wh where wh: "list_index av (weekday s') = Inr wh"
      using 1(3) by (cases "list_index av (weekday s')") auto
    with body0 have body:
      "(if \<not> within_working_hours wh s' e' then loop d av ev en False s' e' acc
        else if overlapping_with_event ev s' e' then loop d av ev en False s' e' acc
        else loop d av ev en False s' e'
               (append_slot (date_str s') \<lparr>slot_time = s', users = []\<rparr> acc)) = Some r"
      by simp
    show ?thesis
    proof (cases "within_working_hours wh s' e' \<and> \<not> overlapping_with_event ev s' e'")
      case False
      with body have "loop d av ev en False s' e' acc = Some r" by (auto split: if_splits)
      then show ?thesis using 1(1,3,4) by blast
    next
      case True
      with body have run: "loop d av ev en False s' e'
          (append_slot (date_str s') \<lparr>slot_time = s', users = []\<rparr> acc) = Some r" by simp
      have "x \<in> set (recorded (append_slot (date_str s') \<lparr>slot_time = s', users = []\<rparr> acc))"
        using 1(4) by (simp add: recorded_append_slot)
      then show ?thesis using 1(1) [OF run 1(3)] by blast
    qed
  qed
qed

text \<open>
  After the first turn, the candidate number \<open>k + 1\<close> is examined as soon as the end of
  the candidate number \<open>k\<close> is within the horizon: the guard of the loop reads the end
  of the slot before the slot is advanced.
\<close>

lemma slot_loop_records:
  assumes "0 \<le> d"
    and "slot_loop d av ev en False s e acc = Some (Inr out)"
    and "e + int k * d \<le> en"
    and "list_index av (weekday (s + (int k + 1) * d)) = Inr wh"
    and "within_working_hours wh (s + (int k + 1) * d) (e + (int k + 1) * d)"
    and "\<not> overlapping_with_event ev (s + (int k + 1) * d) (e + (int k + 1) * d)"
  shows "\<lparr>slot_time = s + (int k + 1) * d, users = []\<rparr> \<in> set (recorded out)"
  using assms(2-)
proof (induction k arbitrary: s e acc)
  case 0
  then have le: "e \<le> en" by simp
  from 0 have "slot_loop d av ev en False (s + d) (e + d)
      (append_slot (date_str (s + d)) \<lparr>slot_time = s + d, users = []\<rparr> acc) = Some (Inr out)"
    by (simp add: slot_loop_next [OF le])
  then have "\<lparr>slot_time = s + d, users = []\<rparr> \<in> set (recorded out)"
    by (rule slot_loop_keeps [OF _ refl]) (simp add: recorded_append_slot)
  then show ?case by simp
next
  case (Suc k)
  have "0 \<le> (int k + 1) * d" using assms(1) by simp
  with Suc.prems(2) have le: "e \<le> en" by (simp add: algebra_simps)
  from Suc.prems(1) obtain acc' where
    run: "slot_loop d av ev en False (s + d) (e + d) acc' = Some (Inr out)"
    by (cases "list_index av (weekday (s + d))") (auto simp: slot_loop_next [OF le])
  have eq: "s + d + (int k + 1) * d = s + (int (Suc k) + 1) * d"
      "e + d + (int k + 1) * d = e + (int (Suc k) + 1) * d"
      "e + d + int k * d = e + int (Suc k) * d"
    by (simp_all add: algebra_simps)
  show ?case
    using Suc.IH [OF run, unfolded eq] Suc.prems by simp
qed

lemma enumerate_slots_records:
  assumes d: "0 < d"
    and len: "7 \<le> length av"
    and t: "t = start_time + (int k + 1) * d" "t \<le> end_time"
    and wh: "list_index av (weekday t) = Inr wh"
    and ok: "within_working_hours wh t (t + d)" "\<not> overlapping_with_event ev t (t + d)"
  shows "\<exists>freeTimes. enumerate_slots d av ev start_time end_time = Some (Inr freeTimes)
           \<and> \<lparr>slot_time = t, users = []\<rparr> \<in> set (recorded freeTimes)"
proof -
  from slot_loop_returns [OF d, of av ev end_time True start_time "start_time + d" "[]"] len
  obtain out where
    out: "slot_loop d av ev end_time True start_time (start_time + d) [] = Some (Inr out)"
    by blast
  have "0 \<le> int k * d" using d by simp
  then have le: "start_time + d \<le> end_time" using t by (simp add: algebra_simps)
  obtain wh0 where wh0: "list_index av (weekday start_time) = Inr wh0"
    using list_index_weekday [OF len] by blast
  from out obtain acc where
    run: "slot_loop d av ev end_time False start_time (start_time + d) acc = Some (Inr out)"
    by (simp add: slot_loop_first [OF le] wh0)
  have 1: "start_time + d + int k * d \<le> end_time" using t by (simp add: algebra_simps)
  have 2: "start_time + d + (int k + 1) * d = t + d" using t by (simp add: algebra_simps)
  have "\<lparr>slot_time = start_time + (int k + 1) * d, users = []\<rparr> \<in> set (recorded out)"
    using d wh ok
    by (intro slot_loop_records [OF _ run 1, of wh]) (simp_all add: 2 t(1) [symmetric])
  then show ?thesis using out t by (simp add: enumerate_slots_def)
qed

lemma get_availabilities_records:
  assumes "availability_id event_type = Some aid"
    and "get_availability table (item_id event_type) aid = Inr av"
    and "get_start_and_end_times now = (start_time, end_time)"
    and "fetch_events start_time end_time (item_id event_type) = Inr ev"
    and "7 \<le> length av"
    and "t = start_time + (int k + 1) * 900000000" "t \<le> end_time"
    and "list_index av (weekday t) = Inr wh"
    and "within_working_hours wh t (t + 900000000)"
    and "\<not> overlapping_with_event ev t (t + 900000000)"
  shows "\<exists>freeTimes. get_availabilities table fetch_events now event_type
             = Some (Inr \<lparr>statusCode = 200, body = freeTimes\<rparr>)
           \<and> \<lparr>slot_time = t, users = []\<rparr> \<in> set (recorded freeTimes)"
proof -
  have "(0::int) < 900000000" by simp
  from enumerate_slots_records [OF this assms(5-10)]
  obtain freeTimes where
    "enumerate_slots 900000000 av ev start_time end_time = Some (Inr freeTimes)"
    and "\<lparr>slot_time = t, users = []\<rparr> \<in> set (recorded freeTimes)" by auto
  then show ?thesis using assms(1-4)
    by (simp add: get_availabilities_def timedelta_seconds_def)
qed

section \<open>The orchestrator on the example inputs\<close>

text \<open>
  At noon of Monday 2023-10-02 (day 738794) the window runs from the midnight of Sunday
  2023-10-01 (day 738793) to 23:59:59.999999 of Saturday 2023-11-18 (day 738841).
\<close>

lemma window_example:
  "get_start_and_end_times (738794 * DAY + mk_time 12 0 0 0)
     = (738793 * DAY, 738841 * DAY + mk_time 23 59 59 999999)"
  by (simp add: get_start_and_end_times_def weekday_def day_number_def DAY_def mk_time_def
      replace_time_def timedelta_days_def timedelta_weeks_def Let_def)

lemma get_availability_example:
  "get_availability [example_event_type, availability_item av] (item_id example_event_type) ''a1''
     = Inr av"
  by (simp add: get_availability_def get_item_def example_event_type_def availability_item_def)

text \<open>
  Claim C4 against the code. With the template \<open>saturday_all_day\<close>, no busy event and
  the clock at noon of Monday 2023-10-02, \<^verbatim>\<open>get_availabilities\<close> answers with a slot that
  starts at 23:45 of Saturday 2023-11-18 and ends at the midnight after it, past the end
  of the window at 23:59:59.999999: the guard \<^verbatim>\<open>time_slot_end <= end_time\<close> is read before
  the slot is advanced, so the last candidate examined is one step past the last one
  that the guard admitted.
\<close>

theorem slot_past_horizon_end:
  "\<exists>freeTimes.
     get_availabilities [example_event_type, availability_item saturday_all_day] no_events
         (738794 * DAY + mk_time 12 0 0 0) example_event_type
       = Some (Inr \<lparr>statusCode = 200, body = freeTimes\<rparr>)
     \<and> \<lparr>slot_time = 738841 * DAY + mk_time 23 45 0 0, users = []\<rparr> \<in> set (recorded freeTimes)
     \<and> snd (get_start_and_end_times (738794 * DAY + mk_time 12 0 0 0))
         < 738841 * DAY + mk_time 23 45 0 0 + timedelta_seconds (15 * 60)"
proof -
  have "\<exists>freeTimes.
     get_availabilities [example_event_type, availability_item saturday_all_day] no_events
         (738794 * DAY + mk_time 12 0 0 0) example_event_type
       = Some (Inr \<lparr>statusCode = 200, body = freeTimes\<rparr>)
     \<and> \<lparr>slot_time = 738841 * DAY + mk_time 23 45 0 0, users = []\<rparr> \<in> set (recorded freeTimes)"
  proof (rule get_availabilities_records [where k = 4702 and aid = "''a1''"
        and wh = "[\<lparr>time_range_start = mk_time 0 0 0 0, time_range_end = mk_time 23 59 59 0\<rparr>]"])
    show "availability_id example_event_type = Some ''a1''" by (simp add: example_event_type_def)
    show "get_availability [example_event_type, availability_item saturday_all_day]
        (item_id example_event_type) ''a1'' = Inr saturday_all_day"
      by (rule get_availability_example)
    show "get_start_and_end_times (738794 * DAY + mk_time 12 0 0 0)
        = (738793 * DAY, 738841 * DAY + mk_time 23 59 59 999999)" by (rule window_example)
    show "no_events (738793 * DAY) (738841 * DAY + mk_time 23 59 59 999999)
        (item_id example_event_type) = Inr []" by (simp add: no_events_def)
    show "7 \<le> length saturday_all_day" by (simp add: saturday_all_day_def)
    show "738841 * DAY + mk_time 23 45 0 0 = 738793 * DAY + (int 4702 + 1) * 900000000"
      by (simp add: DAY_def mk_time_def)
    show "738841 * DAY + mk_time 23 45 0 0 \<le> 738841 * DAY + mk_time 23 59 59 999999"
      by (simp add: mk_time_def)
    show "list_index saturday_all_day (weekday (738841 * DAY + mk_time 23 45 0 0))
        = Inr [\<lparr>time_range_start = mk_time 0 0 0 0, time_range_end = mk_time 23 59 59 0\<rparr>]"
      by (simp add: list_index_def saturday_all_day_def weekday_def day_number_def DAY_def
          mk_time_def)
    show "within_working_hours
        [\<lparr>time_range_start = mk_time 0 0 0 0, time_range_end = mk_time 23 59 59 0\<rparr>]
        (738841 * DAY + mk_time 23 45 0 0) (738841 * DAY + mk_time 23 45 0 0 + 900000000)"
      by (simp add: time_of_def DAY_def mk_time_def)
    show "\<not> overlapping_with_event [] (738841 * DAY + mk_time 23 45 0 0)
        (738841 * DAY + mk_time 23 45 0 0 + 900000000)" by simp
  qed
  moreover have "snd (get_start_and_end_times (738794 * DAY + mk_time 12 0 0 0))
         < 738841 * DAY + mk_time 23 45 0 0 + timedelta_seconds (15 * 60)"
    by (simp add: window_example) (simp add: mk_time_def timedelta_seconds_def DAY_def)
  ultimately show ?thesis by blast
qed

text \<open>
  Claim C7 against the code. \<^verbatim>\<open>default_availability\<close> leaves the indices 0 and 6 empty,
  as Sunday and Saturday; the loop reads the template at \<^verbatim>\<open>weekday()\<close>, where 0 is Monday,
  5 is Saturday and 6 is Sunday. With the default template, no busy event and the clock
  at noon of Monday 2023-10-02, \<^verbatim>\<open>get_availabilities\<close> answers with a slot at 09:00 of
  Saturday 2023-10-07 (day 738799).
\<close>

theorem default_template_saturday_slot:
  "\<exists>freeTimes.
     get_availabilities [example_event_type, availability_item default_availability] no_events
         (738794 * DAY + mk_time 12 0 0 0) example_event_type
       = Some (Inr \<lparr>statusCode = 200, body = freeTimes\<rparr>)
     \<and> \<lparr>slot_time = 738799 * DAY + mk_time 9 0 0 0, users = []\<rparr> \<in> set (recorded freeTimes)
     \<and> weekday (738799 * DAY + mk_time 9 0 0 0) = 5"
proof -
  have "\<exists>freeTimes.
     get_availabilities [example_event_type, availability_item default_availability] no_events
         (738794 * DAY + mk_time 12 0 0 0) example_event_type
       = Some (Inr \<lparr>statusCode = 200, body = freeTimes\<rparr>)
     \<and> \<lparr>slot_time = 738799 * DAY + mk_time 9 0 0 0, users = []\<rparr> \<in> set (recorded freeTimes)"
  proof (rule get_availabilities_records [where k = 611 and aid = "''a1''"
        and wh = "[\<lparr>time_range_start = mk_time 9 0 0 0, time_range_end = mk_time 17 0 0 0\<rparr>]"])
    show "availability_id example_event_type = Some ''a1''" by (simp add: example_event_type_def)
    show "get_availability [example_event_type, availability_item default_availability]
        (item_id example_event_type) ''a1'' = Inr default_availability"
      by (rule get_availability_example)
    show "get_start_and_end_times (738794 * DAY + mk_time 12 0 0 0)
        = (738793 * DAY, 738841 * DAY + mk_time 23 59 59 999999)" by (rule window_example)
    show "no_events (738793 * DAY) (738841 * DAY + mk_time 23 59 59 999999)
        (item_id example_event_type) = Inr []" by (simp add: no_events_def)
    show "7 \<le> length default_availability" by (simp add: default_availability_eval)
    show "738799 * DAY + mk_time 9 0 0 0 = 738793 * DAY + (int 611 + 1) * 900000000"
      by (simp add: DAY_def mk_time_def)
    show "738799 * DAY + mk_time 9 0 0 0 \<le> 738841 * DAY + mk_time 23 59 59 999999"
      by (simp add: mk_time_def DAY_def)
    show "list_index default_availability (weekday (738799 * DAY + mk_time 9 0 0 0))
        = Inr [\<lparr>time_range_start = mk_time 9 0 0 0, time_range_end = mk_time 17 0 0 0\<rparr>]"
      by (simp add: list_index_def default_availability_eval weekday_def day_number_def DAY_def
          mk_time_def)
    show "within_working_hours
        [\<lparr>time_range_start = mk_time 9 0 0 0, time_range_end = mk_time 17 0 0 0\<rparr>]
        (738799 * DAY + mk_time 9 0 0 0) (738799 * DAY + mk_time 9 0 0 0 + 900000000)"
      by (simp add: time_of_def DAY_def mk_time_def)
    show "\<not> overlapping_with_event [] (738799 * DAY + mk_time 9 0 0 0)
        (738799 * DAY + mk_time 9 0 0 0 + 900000000)" by simp
  qed
  moreover have "weekday (738799 * DAY + mk_time 9 0 0 0) = 5"
    by (simp add: weekday_def day_number_def DAY_def mk_time_def)
  ultimately show ?thesis by blast
qed

text \<open>
  Claim C8 against the code. In a table that holds the event type and no availability
  item, \<^verbatim>\<open>get_availability\<close> raises a plain \<^verbatim>\<open>Exception\<close>, \<^verbatim>\<open>get_availabilities\<close> raises
  it again, and \<^verbatim>\<open>get_availabilities_for_url\<close> turns it into an
  \<^verbatim>\<open>InternalServerError\<close>, for every clock and every provider. No \<^verbatim>\<open>NotFoundError\<close> is
  raised, though the docstring of \<^verbatim>\<open>get_availability\<close> announces one.
\<close>

theorem missing_availability_internal_error:
  "get_availability [example_event_type] ''alice'' ''a1''
     = Inl (PyException ''No availability found for the given IDs.'')
   \<and> get_availabilities [example_event_type] fetch_events now example_event_type
     = Some (Inl (PyException ''No availability found for the given IDs.''))
   \<and> get_availabilities_for_url [example_event_type] fetch_events now ''alice'' ''intro''
     = Some (Inl (InternalServerError ''Internal service error''))"
  by (simp add: get_availabilities_for_url_def get_event_type_for_url_def get_availabilities_def
      get_availability_def get_item_def example_event_type_def)

end
